theory Spec2Isabelle
  imports Complex_Main
begin

section \<open>JavaScript numbers and typed arrays\<close>

text \<open>
  A JavaScript number is modelled as an exact real number or one of the three values
  that are not finite. The rounding of IEEE doubles and the sign of zero are not
  modelled: every finite operation is exact, and a zero divisor counts as \<open>+0\<close> (the
  zero divisors of this program are differences of equal numbers and sums of opposite
  numbers, which are \<open>+0\<close>).
\<close>

datatype jsnum = Fin real | PInf | NInf | NaN

instantiation jsnum :: "{plus, uminus, minus, times, inverse, ord}"
begin

fun plus_jsnum :: "jsnum \<Rightarrow> jsnum \<Rightarrow> jsnum" where
  "plus_jsnum (Fin a) (Fin b) = Fin (a + b)"
| "plus_jsnum NaN _ = NaN"
| "plus_jsnum _ NaN = NaN"
| "plus_jsnum PInf NInf = NaN"
| "plus_jsnum NInf PInf = NaN"
| "plus_jsnum PInf _ = PInf"
| "plus_jsnum _ PInf = PInf"
| "plus_jsnum NInf _ = NInf"
| "plus_jsnum _ NInf = NInf"

fun uminus_jsnum :: "jsnum \<Rightarrow> jsnum" where
  "uminus_jsnum (Fin a) = Fin (- a)"
| "uminus_jsnum PInf = NInf"
| "uminus_jsnum NInf = PInf"
| "uminus_jsnum NaN = NaN"

definition minus_jsnum :: "jsnum \<Rightarrow> jsnum \<Rightarrow> jsnum" where
  "minus_jsnum a b = a + (- b)"

text \<open>The sign of a product or quotient with an infinite operand.\<close>

fun signed :: "bool \<Rightarrow> jsnum" where
  "signed True = PInf"
| "signed False = NInf"

fun times_jsnum :: "jsnum \<Rightarrow> jsnum \<Rightarrow> jsnum" where
  "times_jsnum (Fin a) (Fin b) = Fin (a * b)"
| "times_jsnum NaN _ = NaN"
| "times_jsnum _ NaN = NaN"
| "times_jsnum PInf (Fin b) = (if b = 0 then NaN else signed (0 < b))"
| "times_jsnum NInf (Fin b) = (if b = 0 then NaN else signed (b < 0))"
| "times_jsnum (Fin a) PInf = (if a = 0 then NaN else signed (0 < a))"
| "times_jsnum (Fin a) NInf = (if a = 0 then NaN else signed (a < 0))"
| "times_jsnum PInf PInf = PInf"
| "times_jsnum NInf NInf = PInf"
| "times_jsnum PInf NInf = NInf"
| "times_jsnum NInf PInf = NInf"

fun divide_jsnum :: "jsnum \<Rightarrow> jsnum \<Rightarrow> jsnum" where
  "divide_jsnum (Fin a) (Fin b) =
     (if b = 0 then (if a = 0 then NaN else signed (0 < a)) else Fin (a / b))"
| "divide_jsnum NaN _ = NaN"
| "divide_jsnum _ NaN = NaN"
| "divide_jsnum (Fin a) PInf = Fin 0"
| "divide_jsnum (Fin a) NInf = Fin 0"
| "divide_jsnum PInf (Fin b) = signed (0 \<le> b)"
| "divide_jsnum NInf (Fin b) = signed (b < 0)"
| "divide_jsnum PInf PInf = NaN"
| "divide_jsnum PInf NInf = NaN"
| "divide_jsnum NInf PInf = NaN"
| "divide_jsnum NInf NInf = NaN"

definition inverse_jsnum :: "jsnum \<Rightarrow> jsnum" where
  "inverse_jsnum a = divide (Fin 1) a"

text \<open>The comparisons \<open><\<close> and \<open><=\<close>: false as soon as one side is \<open>NaN\<close>.\<close>

fun less_jsnum :: "jsnum \<Rightarrow> jsnum \<Rightarrow> bool" where
  "less_jsnum (Fin a) (Fin b) = (a < b)"
| "less_jsnum NaN _ = False"
| "less_jsnum _ NaN = False"
| "less_jsnum _ NInf = False"
| "less_jsnum PInf _ = False"
| "less_jsnum NInf _ = True"
| "less_jsnum _ PInf = True"

fun less_eq_jsnum :: "jsnum \<Rightarrow> jsnum \<Rightarrow> bool" where
  "less_eq_jsnum (Fin a) (Fin b) = (a \<le> b)"
| "less_eq_jsnum NaN _ = False"
| "less_eq_jsnum _ NaN = False"
| "less_eq_jsnum NInf _ = True"
| "less_eq_jsnum _ PInf = True"
| "less_eq_jsnum _ NInf = False"
| "less_eq_jsnum PInf _ = False"

instance ..

end

text \<open>Strict equality \<open>===\<close> on numbers: \<open>NaN\<close> is not equal to itself.\<close>

definition strictEq :: "jsnum \<Rightarrow> jsnum \<Rightarrow> bool" where
  "strictEq a b = (a \<noteq> NaN \<and> a = b)"

text \<open>\<open>Math.max\<close> and \<open>Math.min\<close> return \<open>NaN\<close> when an argument is \<open>NaN\<close>.\<close>

definition mathMax :: "jsnum \<Rightarrow> jsnum \<Rightarrow> jsnum" where
  "mathMax a b = (if a = NaN \<or> b = NaN then NaN else if a < b then b else a)"

definition mathMin :: "jsnum \<Rightarrow> jsnum \<Rightarrow> jsnum" where
  "mathMin a b = (if a = NaN \<or> b = NaN then NaN else if b < a then b else a)"

definition mathMax3 :: "jsnum \<Rightarrow> jsnum \<Rightarrow> jsnum \<Rightarrow> jsnum" where
  "mathMax3 a b c = mathMax (mathMax a b) c"

definition mathMin3 :: "jsnum \<Rightarrow> jsnum \<Rightarrow> jsnum \<Rightarrow> jsnum" where
  "mathMin3 a b c = mathMin (mathMin a b) c"

text \<open>\<open>Math.round\<close> rounds a tie upwards; \<open>Math.floor\<close>; \<open>Math.sqrt\<close>; \<open>Math.pow\<close> with a
  natural exponent.\<close>

fun mathRound :: "jsnum \<Rightarrow> jsnum" where
  "mathRound (Fin a) = Fin (of_int \<lfloor>a + 1 / 2\<rfloor>)"
| "mathRound x = x"

fun mathFloor :: "jsnum \<Rightarrow> jsnum" where
  "mathFloor (Fin a) = Fin (of_int \<lfloor>a\<rfloor>)"
| "mathFloor x = x"

fun mathSqrt :: "jsnum \<Rightarrow> jsnum" where
  "mathSqrt (Fin a) = (if a < 0 then NaN else Fin (sqrt a))"
| "mathSqrt PInf = PInf"
| "mathSqrt NInf = NaN"
| "mathSqrt NaN = NaN"

fun mathPow :: "jsnum \<Rightarrow> nat \<Rightarrow> jsnum" where
  "mathPow (Fin a) n = Fin (a ^ n)"
| "mathPow PInf n = (if n = 0 then Fin 1 else PInf)"
| "mathPow NInf n = (if n = 0 then Fin 1 else if even n then PInf else NInf)"
| "mathPow NaN n = (if n = 0 then Fin 1 else NaN)"

text \<open>The remainder operator \<open>%\<close>: the result has the sign of the dividend.\<close>

definition truncate :: "real \<Rightarrow> int" where
  "truncate a = (if 0 \<le> a then \<lfloor>a\<rfloor> else \<lceil>a\<rceil>)"

fun remainder :: "jsnum \<Rightarrow> jsnum \<Rightarrow> jsnum" where
  "remainder (Fin a) (Fin b) = (if b = 0 then NaN else Fin (a - b * of_int (truncate (a / b))))"
| "remainder (Fin a) PInf = Fin a"
| "remainder (Fin a) NInf = Fin a"
| "remainder _ _ = NaN"

subsection \<open>\<open>Uint8ClampedArray\<close>\<close>

text \<open>
  The pixel data is a \<open>Uint8ClampedArray\<close>. A store converts the number: \<open>NaN\<close> becomes
  0, the value is clamped to \<open>[0, 255]\<close> and rounded to the nearest integer, a tie to
  the even one. A read inside the array gives the element; a read outside gives
  \<open>undefined\<close>, which every arithmetic operation of this program turns into \<open>NaN\<close>. A
  store outside the array is ignored.
\<close>

definition roundHalfEven :: "real \<Rightarrow> int" where
  "roundHalfEven a =
     (let f = \<lfloor>a\<rfloor>
      in if of_int f + 1 / 2 < a then f + 1
         else if a < of_int f + 1 / 2 then f
         else if even f then f else f + 1)"

fun toUint8Clamp :: "jsnum \<Rightarrow> int" where
  "toUint8Clamp (Fin a) = (if a \<le> 0 then 0 else if 255 \<le> a then 255 else roundHalfEven a)"
| "toUint8Clamp PInf = 255"
| "toUint8Clamp NInf = 0"
| "toUint8Clamp NaN = 0"

definition rd :: "int list \<Rightarrow> nat \<Rightarrow> jsnum" where
  "rd xs i = (if i < length xs then Fin (of_int (xs ! i)) else NaN)"

definition put :: "int list \<Rightarrow> nat \<Rightarrow> jsnum \<Rightarrow> int list" where
  "put xs i v = (if i < length xs then xs[i := toUint8Clamp v] else xs)"

text \<open>
  \<open>ImageData\<close>: the data holds four bytes (red, green, blue, alpha) per pixel, row by
  row. The images that the browser hands out are well formed; the constructor
  \<open>new ImageData(data, width, height)\<close> refuses data of another length.
\<close>

record imageData =
  width :: nat
  height :: nat
  data :: "int list"

definition validBytes :: "int list \<Rightarrow> bool" where
  "validBytes xs = list_all (\<lambda>v. 0 \<le> v \<and> v \<le> 255) xs"

definition wellFormed :: "imageData \<Rightarrow> bool" where
  "wellFormed img = (length (data img) = width img * height img * 4 \<and> validBytes (data img))"

text \<open>\<open>alphaKept d0 d\<close>: the data \<open>d\<close> has the length of \<open>d0\<close> and the same byte at every
  alpha position.\<close>

definition alphaKept :: "int list \<Rightarrow> int list \<Rightarrow> bool" where
  "alphaKept d0 d = (length d = length d0 \<and> (\<forall>j. j mod 4 = 3 \<longrightarrow> d ! j = d0 ! j))"

text \<open>The offsets visited by \<open>for (let i = 0; i < len; i += 4)\<close>.\<close>

definition pixelStarts :: "nat \<Rightarrow> nat list" where
  "pixelStarts len = map (\<lambda>k. 4 * k) [0..<(len + 3) div 4]"

subsection \<open>Colour conversion (image-processing-worker)\<close>

definition rgbToHsl :: "jsnum \<Rightarrow> jsnum \<Rightarrow> jsnum \<Rightarrow> jsnum \<times> jsnum \<times> jsnum" where
  "rgbToHsl r0 g0 b0 =
     (let r = r0 / Fin 255; g = g0 / Fin 255; b = b0 / Fin 255;
          mx = mathMax3 r g b;
          mn = mathMin3 r g b;
          l = (mx + mn) / Fin 2
      in if strictEq mx mn then (Fin 0, Fin 0, l)
         else
           (let d = mx - mn;
                s = (if Fin (1 / 2) < l then d / (Fin 2 - mx - mn) else d / (mx + mn));
                h = (if strictEq mx r then (g - b) / d + (if g < b then Fin 6 else Fin 0)
                     else if strictEq mx g then (b - r) / d + Fin 2
                     else if strictEq mx b then (r - g) / d + Fin 4
                     else NaN)
            in (h / Fin 6, s, l)))"

definition hue2rgb :: "jsnum \<Rightarrow> jsnum \<Rightarrow> jsnum \<Rightarrow> jsnum" where
  "hue2rgb p q t0 =
     (let t1 = (if t0 < Fin 0 then t0 + Fin 1 else t0);
          t = (if Fin 1 < t1 then t1 - Fin 1 else t1)
      in if t < Fin (1 / 6) then p + (q - p) * Fin 6 * t
         else if t < Fin (1 / 2) then q
         else if t < Fin (2 / 3) then p + (q - p) * (Fin (2 / 3) - t) * Fin 6
         else p)"

definition hslToRgb :: "jsnum \<Rightarrow> jsnum \<Rightarrow> jsnum \<Rightarrow> jsnum \<times> jsnum \<times> jsnum" where
  "hslToRgb h s l =
     (let (r, g, b) =
            (if strictEq s (Fin 0) then (l, l, l)
             else
               (let q = (if l < Fin (1 / 2) then l * (Fin 1 + s) else l + s - l * s);
                    p = Fin 2 * l - q
                in (hue2rgb p q (h + Fin (1 / 3)), hue2rgb p q h, hue2rgb p q (h - Fin (1 / 3)))))
      in (r * Fin 255, g * Fin 255, b * Fin 255))"


section \<open>The image-processing worker\<close>

text \<open>
  \<open>ImageAdjustments\<close> (image-processor.ts). The fields are JavaScript numbers set by the
  editor's sliders; they are finite, hence reals. The worker receives the fields it
  destructures; the model hands it the whole record.
\<close>

record imageAdjustments =
  brightness :: real
  contrast :: real
  clarity :: real
  sharpen :: real
  saturation :: real
  vibrance :: real
  hue :: real
  temperature :: real
  blur :: real
  vignette :: real
  noise :: real
  filterType :: string
  rotation :: real
  flipX :: bool
  flipY :: bool

definition defaultAdjustments :: imageAdjustments where
  "defaultAdjustments =
     \<lparr>brightness = 100, contrast = 100, clarity = 0, sharpen = 0,
      saturation = 100, vibrance = 0, hue = 0, temperature = 0,
      blur = 0, vignette = 0, noise = 0, filterType = ''none'',
      rotation = 0, flipX = False, flipY = False\<rparr>"

text \<open>The ranges written beside the fields of \<open>ImageAdjustments\<close>, and the filter names
  the worker knows.\<close>

definition filterNames :: "string list" where
  "filterNames = [''none'', ''grayscale'', ''sepia'', ''invert'', ''vintage'', ''cool'',
                  ''warm'', ''dramatic'', ''noir'', ''fade'']"

definition inRange :: "imageAdjustments \<Rightarrow> bool" where
  "inRange p =
     (0 \<le> brightness p \<and> brightness p \<le> 200 \<and> 0 \<le> contrast p \<and> contrast p \<le> 200
      \<and> - 100 \<le> clarity p \<and> clarity p \<le> 100 \<and> 0 \<le> sharpen p \<and> sharpen p \<le> 100
      \<and> 0 \<le> saturation p \<and> saturation p \<le> 200 \<and> - 100 \<le> vibrance p \<and> vibrance p \<le> 100
      \<and> 0 \<le> hue p \<and> hue p \<le> 360 \<and> - 100 \<le> temperature p \<and> temperature p \<le> 100
      \<and> 0 \<le> blur p \<and> blur p \<le> 100 \<and> 0 \<le> vignette p \<and> vignette p \<le> 100
      \<and> 0 \<le> noise p \<and> noise p \<le> 100 \<and> filterType p \<in> set filterNames)"

subsection \<open>Box blur and unsharp mask\<close>

text \<open>The copy loops \<open>for (i < n) dst[i] = src[i]\<close> into a fresh array of length \<open>n\<close>.\<close>

definition copyData :: "nat \<Rightarrow> int list \<Rightarrow> int list" where
  "copyData n src = map (\<lambda>i. toUint8Clamp (rd src i)) [0..<n]"

text \<open>
  The inner loop of a blur pass: the sums of the four channels over the offsets
  \<open>-radius, \<dots>, radius\<close> and the number of samples. \<open>idxOf\<close> gives the data index of the
  sample at an offset.
\<close>

definition sampleSums ::
  "int list \<Rightarrow> (int \<Rightarrow> nat) \<Rightarrow> int \<Rightarrow> jsnum \<times> jsnum \<times> jsnum \<times> jsnum \<times> jsnum" where
  "sampleSums tempData idxOf radius =
     foldl (\<lambda>(r, g, b, a, count) i.
              (let idx = idxOf i
               in (r + rd tempData idx, g + rd tempData (idx + 1), b + rd tempData (idx + 2),
                   a + rd tempData (idx + 3), count + Fin 1)))
       (Fin 0, Fin 0, Fin 0, Fin 0, Fin 0) [- radius..radius]"

definition writeAverages ::
  "int list \<Rightarrow> nat \<Rightarrow> jsnum \<times> jsnum \<times> jsnum \<times> jsnum \<times> jsnum \<Rightarrow> int list" where
  "writeAverages d idx acc =
     (case acc of (r, g, b, a, count) \<Rightarrow>
        put (put (put (put d idx (r / count)) (idx + 1) (g / count)) (idx + 2) (b / count))
          (idx + 3) (a / count))"

text \<open>Inside the loops \<open>x < width\<close> and \<open>y < height\<close>, so the clamped coordinates are not
  negative.\<close>

definition clampCoord :: "nat \<Rightarrow> nat \<Rightarrow> int \<Rightarrow> nat" where
  "clampCoord n x i = nat (min (int n - 1) (max 0 (int x + i)))"

definition horizontalPass :: "int list \<Rightarrow> int list \<Rightarrow> nat \<Rightarrow> nat \<Rightarrow> int \<Rightarrow> int list" where
  "horizontalPass d0 tempData w h radius =
     foldl (\<lambda>d y.
        foldl (\<lambda>d x.
           writeAverages d ((y * w + x) * 4)
             (sampleSums tempData (\<lambda>i. (y * w + clampCoord w x i) * 4) radius))
          d [0..<w])
       d0 [0..<h]"

definition verticalPass :: "int list \<Rightarrow> int list \<Rightarrow> nat \<Rightarrow> nat \<Rightarrow> int \<Rightarrow> int list" where
  "verticalPass d0 tempData w h radius =
     foldl (\<lambda>d x.
        foldl (\<lambda>d y.
           writeAverages d ((y * w + x) * 4)
             (sampleSums tempData (\<lambda>i. (clampCoord h y i * w + x) * 4) radius))
          d [0..<h])
       d0 [0..<w]"

definition applyBoxBlur :: "int list \<Rightarrow> nat \<Rightarrow> nat \<Rightarrow> int \<Rightarrow> int list" where
  "applyBoxBlur d w h radius =
     (let n = w * h * 4;
          tempData = copyData n d;
          d1 = horizontalPass d tempData w h radius;
          tempData' = copyData n d1
      in verticalPass d1 tempData' w h radius)"

definition unsharpStep :: "jsnum \<Rightarrow> int list \<Rightarrow> int list \<Rightarrow> nat \<Rightarrow> int list" where
  "unsharpStep amount blurredData d i =
     foldl (\<lambda>d c.
        (let idx = i + c;
             orig = rd d idx;
             blurred = rd blurredData idx;
             diff = orig - blurred
         in put d idx (mathMax (Fin 0) (mathMin (Fin 255) (orig + amount * diff)))))
       d [0..<3]"

definition applyUnsharpMask :: "imageData \<Rightarrow> jsnum \<Rightarrow> imageData" where
  "applyUnsharpMask img amount =
     (let d = data img;
          blurredData = applyBoxBlur (copyData (length d) d) (width img) (height img) 1
      in img\<lparr>data := foldl (unsharpStep amount blurredData) d (pixelStarts (length d))\<rparr>)"

subsection \<open>Basic adjustments\<close>

definition clipRound :: "jsnum \<Rightarrow> jsnum" where
  "clipRound v = mathMax (Fin 0) (mathMin (Fin 255) (mathRound v))"

definition contrastFactorOf :: "real \<Rightarrow> jsnum" where
  "contrastFactorOf c = Fin (259 * (c + 255)) / Fin (255 * (259 - c))"

definition basicPixel :: "imageAdjustments \<Rightarrow> jsnum \<Rightarrow> jsnum \<Rightarrow> jsnum \<Rightarrow> jsnum \<times> jsnum \<times> jsnum" where
  "basicPixel p r0 g0 b0 =
     (let brightnessValue = Fin (brightness p / 100);
          contrastFactor = contrastFactorOf (contrast p);
          r1 = r0 * brightnessValue;
          g1 = g0 * brightnessValue;
          b1 = b0 * brightnessValue;
          r2 = contrastFactor * (r1 - Fin 128) + Fin 128;
          g2 = contrastFactor * (g1 - Fin 128) + Fin 128;
          b2 = contrastFactor * (b1 - Fin 128) + Fin 128
      in if clarity p \<noteq> 0
         then (let clarityAmount = Fin (clarity p / 100);
                   avgColor = (r2 + g2 + b2) / Fin 3
               in (r2 + (r2 - avgColor) * clarityAmount,
                   g2 + (g2 - avgColor) * clarityAmount,
                   b2 + (b2 - avgColor) * clarityAmount))
         else (r2, g2, b2))"

definition basicStep :: "imageAdjustments \<Rightarrow> int list \<Rightarrow> nat \<Rightarrow> int list" where
  "basicStep p d i =
     (case basicPixel p (rd d i) (rd d (i + 1)) (rd d (i + 2)) of (r, g, b) \<Rightarrow>
        put (put (put d i (clipRound r)) (i + 1) (clipRound g)) (i + 2) (clipRound b))"

definition applyBasicAdjustments :: "imageData \<Rightarrow> imageAdjustments \<Rightarrow> imageData" where
  "applyBasicAdjustments img p =
     (let result = img\<lparr>data := foldl (basicStep p) (data img) (pixelStarts (length (data img)))\<rparr>
      in if sharpen p > 0 then applyUnsharpMask result (Fin (sharpen p / 100)) else result)"

subsection \<open>Colour adjustments\<close>

definition colorPixel :: "imageAdjustments \<Rightarrow> jsnum \<Rightarrow> jsnum \<Rightarrow> jsnum \<Rightarrow> jsnum \<times> jsnum \<times> jsnum" where
  "colorPixel p r0 g0 b0 =
     (let saturationValue = Fin (saturation p / 100);
          vibranceValue = Fin (vibrance p / 100);
          tempAdjust = temperature p / 100;
          (r, g, b) =
            (if tempAdjust \<noteq> 0
             then (if tempAdjust > 0
                   then (r0 + Fin (tempAdjust * 25), g0 + Fin (tempAdjust * 15),
                         b0 - Fin (tempAdjust * 25))
                   else (r0 + Fin (tempAdjust * 15), g0 + Fin (tempAdjust * 10),
                         b0 - Fin (tempAdjust * 25)))
             else (r0, g0, b0));
          (h0, s0, l) = rgbToHsl r g b;
          h = (if hue p \<noteq> 0 then remainder (h0 + Fin (hue p / 360)) (Fin 1) else h0);
          s1 = (if saturation p \<noteq> 100 then s0 * saturationValue else s0);
          s = (if vibrance p \<noteq> 0
               then (let sat = s1;
                         adjustmentFactor = Fin 1 + vibranceValue * (Fin 1 - sat)
                     in mathMax (Fin 0) (mathMin (Fin 1) (sat * adjustmentFactor)))
               else s1)
      in hslToRgb h s l)"

definition colorStep :: "imageAdjustments \<Rightarrow> int list \<Rightarrow> nat \<Rightarrow> int list" where
  "colorStep p d i =
     (case colorPixel p (rd d i) (rd d (i + 1)) (rd d (i + 2)) of (r, g, b) \<Rightarrow>
        put (put (put d i (clipRound r)) (i + 1) (clipRound g)) (i + 2) (clipRound b))"

definition applyColorAdjustments :: "imageData \<Rightarrow> imageAdjustments \<Rightarrow> imageData" where
  "applyColorAdjustments img p =
     img\<lparr>data := foldl (colorStep p) (data img) (pixelStarts (length (data img)))\<rparr>"

subsection \<open>Filter presets\<close>

text \<open>One step of each filter's loop, at the offset \<open>i\<close> of a pixel.\<close>

definition put3 :: "int list \<Rightarrow> nat \<Rightarrow> jsnum \<Rightarrow> jsnum \<Rightarrow> jsnum \<Rightarrow> int list" where
  "put3 d i r g b = put (put (put d i r) (i + 1) g) (i + 2) b"

definition grayscaleStep :: "int list \<Rightarrow> nat \<Rightarrow> int list" where
  "grayscaleStep d i =
     (let avg = rd d i * Fin 0.299 + rd d (i + 1) * Fin 0.587 + rd d (i + 2) * Fin 0.114
      in put (put (put d (i + 2) avg) (i + 1) avg) i avg)"

definition sepiaStep :: "int list \<Rightarrow> nat \<Rightarrow> int list" where
  "sepiaStep d i =
     (let r = rd d i; g = rd d (i + 1); b = rd d (i + 2)
      in put3 d i
           (mathMin (Fin 255) (r * Fin 0.393 + g * Fin 0.769 + b * Fin 0.189))
           (mathMin (Fin 255) (r * Fin 0.349 + g * Fin 0.686 + b * Fin 0.168))
           (mathMin (Fin 255) (r * Fin 0.272 + g * Fin 0.534 + b * Fin 0.131)))"

definition invertStep :: "int list \<Rightarrow> nat \<Rightarrow> int list" where
  "invertStep d i =
     (let d1 = put d i (Fin 255 - rd d i);
          d2 = put d1 (i + 1) (Fin 255 - rd d1 (i + 1))
      in put d2 (i + 2) (Fin 255 - rd d2 (i + 2)))"

definition vintageStep :: "int list \<Rightarrow> nat \<Rightarrow> int list" where
  "vintageStep d i =
     (let r = rd d i; g = rd d (i + 1); b = rd d (i + 2)
      in put3 d i
           (mathMin (Fin 255) (r * Fin 0.5 + g * Fin 0.4 + b * Fin 0.19 + Fin 40))
           (mathMin (Fin 255) (r * Fin 0.3 + g * Fin 0.4 + b * Fin 0.16 + Fin 20))
           (mathMin (Fin 255) (r * Fin 0.2 + g * Fin 0.3 + b * Fin 0.26)))"

definition coolStep :: "int list \<Rightarrow> nat \<Rightarrow> int list" where
  "coolStep d i =
     (let d1 = put d i (mathMax (Fin 0) (rd d i * Fin 0.9));
          d2 = put d1 (i + 1) (mathMax (Fin 0) (rd d1 (i + 1)))
      in put d2 (i + 2) (mathMin (Fin 255) (rd d2 (i + 2) * Fin 1.2)))"

definition warmStep :: "int list \<Rightarrow> nat \<Rightarrow> int list" where
  "warmStep d i =
     (let d1 = put d i (mathMin (Fin 255) (rd d i * Fin 1.1 + Fin 15));
          d2 = put d1 (i + 1) (mathMin (Fin 255) (rd d1 (i + 1) * Fin 1.05))
      in put d2 (i + 2) (mathMax (Fin 0) (rd d2 (i + 2) * Fin 0.9)))"

definition dramaticStep :: "int list \<Rightarrow> nat \<Rightarrow> int list" where
  "dramaticStep d i =
     (case rgbToHsl (rd d i) (rd d (i + 1)) (rd d (i + 2)) of (h, s0, l0) \<Rightarrow>
        (let s = mathMin (Fin 1) (s0 * Fin 1.3);
             l = (if Fin 0.5 < l0 then l0 + (l0 - Fin 0.5) * Fin 0.2
                  else l0 - (Fin 0.5 - l0) * Fin 0.2)
         in case hslToRgb h s l of (r, g, b) \<Rightarrow> put3 d i r g b))"

definition noirStep :: "int list \<Rightarrow> nat \<Rightarrow> int list" where
  "noirStep d i =
     (let avg0 = rd d i * Fin 0.299 + rd d (i + 1) * Fin 0.587 + rd d (i + 2) * Fin 0.114;
          avg1 = (if avg0 < Fin 127 then avg0 * Fin 0.8 else avg0 * Fin 1.2);
          avg = mathMax (Fin 0) (mathMin (Fin 255) avg1)
      in put (put (put d (i + 2) avg) (i + 1) avg) i avg)"

definition fadeStep :: "int list \<Rightarrow> nat \<Rightarrow> int list" where
  "fadeStep d i =
     (let r = rd d i; g = rd d (i + 1); b = rd d (i + 2)
      in put3 d i
           (mathMin (Fin 255) (r * Fin 0.9 + Fin 20))
           (mathMin (Fin 255) (g * Fin 0.9 + Fin 20))
           (mathMin (Fin 255) (b * Fin 0.9 + Fin 30)))"

text \<open>
  The table \<open>filters\<close> of \<open>applyFilterPreset\<close>, looked up by name; a name that is not a
  key of the table leaves the image as it is. (The properties that an object literal
  inherits, such as \<open>constructor\<close>, are not modelled; the filter names in range are
  the nine keys and \<open>none\<close>.)
\<close>

definition filters :: "string \<Rightarrow> (int list \<Rightarrow> nat \<Rightarrow> int list) option" where
  "filters name =
     (if name = ''grayscale'' then Some grayscaleStep
      else if name = ''sepia'' then Some sepiaStep
      else if name = ''invert'' then Some invertStep
      else if name = ''vintage'' then Some vintageStep
      else if name = ''cool'' then Some coolStep
      else if name = ''warm'' then Some warmStep
      else if name = ''dramatic'' then Some dramaticStep
      else if name = ''noir'' then Some noirStep
      else if name = ''fade'' then Some fadeStep
      else None)"

definition applyFilterPreset :: "imageData \<Rightarrow> string \<Rightarrow> imageData" where
  "applyFilterPreset img name =
     (case filters name of
        Some step \<Rightarrow> img\<lparr>data := foldl step (data img) (pixelStarts (length (data img)))\<rparr>
      | None \<Rightarrow> img)"

subsection \<open>Vignette\<close>

text \<open>The distance of the pixel \<open>(x, y)\<close> from the centre, as \<open>applyVignetteEffect\<close>
  computes it: each axis is divided by the half of its own extent.\<close>

definition vignetteDistance :: "nat \<Rightarrow> nat \<Rightarrow> nat \<Rightarrow> nat \<Rightarrow> jsnum" where
  "vignetteDistance w h x y =
     (let centerX = Fin (real w / 2);
          centerY = Fin (real h / 2);
          dx = (Fin (real x) - centerX) / centerX;
          dy = (Fin (real y) - centerY) / centerY
      in mathSqrt (dx * dx + dy * dy))"

definition vignetteStep :: "real \<Rightarrow> nat \<Rightarrow> nat \<Rightarrow> nat \<Rightarrow> int list \<Rightarrow> nat \<Rightarrow> int list" where
  "vignetteStep amount w h y d x =
     (let distance = vignetteDistance w h x y
      in if Fin 0.5 < distance
         then (let idx = (y * w + x) * 4;
                   factor = Fin 1 - mathMin (Fin 1)
                              (Fin amount * mathPow ((distance - Fin 0.5) * Fin 2) 2);
                   d1 = put d idx (mathFloor (rd d idx * factor));
                   d2 = put d1 (idx + 1) (mathFloor (rd d1 (idx + 1) * factor))
               in put d2 (idx + 2) (mathFloor (rd d2 (idx + 2) * factor)))
         else d)"

definition applyVignetteEffect :: "imageData \<Rightarrow> real \<Rightarrow> imageData" where
  "applyVignetteEffect img amount =
     img\<lparr>data := foldl (\<lambda>d y. foldl (vignetteStep amount (width img) (height img) y) d
                                [0..<width img])
                    (data img) [0..<height img]\<rparr>"

text \<open>\<open>maxDist\<close> is the distance from the centre to a corner; \<open>applyVignetteEffect\<close>
  computes it and does not use it. \<open>centreDistance\<close> is the distance of the pixel
  \<open>(x, y)\<close> from the centre \<open>(width / 2, height / 2)\<close> in pixels, the distance that C9
  speaks of; the code does not compute it.\<close>

definition maxDist :: "nat \<Rightarrow> nat \<Rightarrow> real" where
  "maxDist w h = sqrt ((real w / 2) * (real w / 2) + (real h / 2) * (real h / 2))"

definition centreDistance :: "nat \<Rightarrow> nat \<Rightarrow> nat \<Rightarrow> nat \<Rightarrow> real" where
  "centreDistance w h x y = sqrt ((real x - real w / 2)\<^sup>2 + (real y - real h / 2)\<^sup>2)"

text \<open>What the vignette does to one colour byte of the pixel \<open>(x, y)\<close> (used in the
  proofs).\<close>

definition vignetteByte :: "real \<Rightarrow> nat \<Rightarrow> nat \<Rightarrow> nat \<Rightarrow> nat \<Rightarrow> int \<Rightarrow> int" where
  "vignetteByte amount w h x y v =
     (let distance = vignetteDistance w h x y
      in if Fin 0.5 < distance
         then toUint8Clamp (mathFloor (Fin (of_int v) *
                (Fin 1 - mathMin (Fin 1) (Fin amount * mathPow ((distance - Fin 0.5) * Fin 2) 2))))
         else v)"

subsection \<open>Noise\<close>

text \<open>
  \<open>Math.random\<close> is a source of numbers in \<open>[0, 1)\<close>: the \<open>k\<close>-th call returns
  \<open>rand k\<close>. The loop state is the data and the number of calls made so far.
\<close>

definition noiseStep :: "(nat \<Rightarrow> real) \<Rightarrow> real \<Rightarrow> int list \<times> nat \<Rightarrow> nat \<Rightarrow> int list \<times> nat" where
  "noiseStep rand amount st i =
     (case st of (d, k) \<Rightarrow>
        if rand k < 0.5 then (d, k + 1)
        else (let noise = Fin ((rand (k + 1) - 0.5) * amount * 50);
                  d1 = put d i (mathMax (Fin 0) (mathMin (Fin 255) (rd d i + noise)));
                  d2 = put d1 (i + 1) (mathMax (Fin 0) (mathMin (Fin 255) (rd d1 (i + 1) + noise)))
              in (put d2 (i + 2) (mathMax (Fin 0) (mathMin (Fin 255) (rd d2 (i + 2) + noise))),
                  k + 2)))"

definition applyNoiseEffect :: "(nat \<Rightarrow> real) \<Rightarrow> imageData \<Rightarrow> real \<Rightarrow> imageData" where
  "applyNoiseEffect rand img amount =
     img\<lparr>data := fst (foldl (noiseStep rand amount) (data img, 0)
                          (pixelStarts (length (data img))))\<rparr>"

subsection \<open>Effects\<close>

definition blurRadiusOf :: "real \<Rightarrow> int" where
  "blurRadiusOf b = max 1 \<lfloor>b / 20\<rfloor>"

definition applyEffects :: "(nat \<Rightarrow> real) \<Rightarrow> imageData \<Rightarrow> imageAdjustments \<Rightarrow> imageData" where
  "applyEffects rand img p =
     (let r1 = (if filterType p \<noteq> [] \<and> filterType p \<noteq> ''none''
                then applyFilterPreset img (filterType p) else img);
          r2 = (if vignette p > 0 then applyVignetteEffect r1 (vignette p / 100) else r1);
          r3 = (if noise p > 0 then applyNoiseEffect rand r2 (noise p / 100) else r2)
      in if blur p > 0
         then r3\<lparr>data := applyBoxBlur (data r3) (width r3) (height r3) (blurRadiusOf (blur p))\<rparr>
         else r3)"

subsection \<open>The message handler\<close>

text \<open>
  \<open>self.onmessage\<close>: the answer to a request is the result of the operation, or the
  message of the error thrown for an unknown action.
\<close>

definition onmessage ::
  "(nat \<Rightarrow> real) \<Rightarrow> string \<Rightarrow> imageData \<Rightarrow> imageAdjustments \<Rightarrow> string + imageData" where
  "onmessage rand action img params =
     (if action = ''basic-adjustments'' then Inr (applyBasicAdjustments img params)
      else if action = ''color-adjustments'' then Inr (applyColorAdjustments img params)
      else if action = ''effects'' then Inr (applyEffects rand img params)
      else Inl (''Unknown action: '' @ action))"

section \<open>The image processor (image-processor.ts)\<close>

subsection \<open>Main-thread fallback\<close>

definition mainThreadPixel :: "imageAdjustments \<Rightarrow> jsnum \<Rightarrow> jsnum \<Rightarrow> jsnum \<Rightarrow> jsnum \<times> jsnum \<times> jsnum" where
  "mainThreadPixel adj r0 g0 b0 =
     (let brightnessValue = Fin (brightness adj / 100);
          contrastFactor = Fin (259 * (contrast adj + 255)) / Fin (255 * (259 - contrast adj));
          r1 = r0 * brightnessValue;
          g1 = g0 * brightnessValue;
          b1 = b0 * brightnessValue;
          r2 = contrastFactor * (r1 - Fin 128) + Fin 128;
          g2 = contrastFactor * (g1 - Fin 128) + Fin 128;
          b2 = contrastFactor * (b1 - Fin 128) + Fin 128;
          (r3, g3, b3) =
            (if clarity adj \<noteq> 0
             then (let clarityAmount = Fin (clarity adj / 100);
                       avgColor = (r2 + g2 + b2) / Fin 3
                   in (r2 + (r2 - avgColor) * clarityAmount,
                       g2 + (g2 - avgColor) * clarityAmount,
                       b2 + (b2 - avgColor) * clarityAmount))
             else (r2, g2, b2))
      in if saturation adj \<noteq> 100
         then (let gray = Fin 0.2989 * r3 + Fin 0.5870 * g3 + Fin 0.1140 * b3;
                   satFactor = Fin (saturation adj / 100)
               in (gray + satFactor * (r3 - gray),
                   gray + satFactor * (g3 - gray),
                   gray + satFactor * (b3 - gray)))
         else (r3, g3, b3))"

definition mainThreadStep :: "imageAdjustments \<Rightarrow> int list \<Rightarrow> nat \<Rightarrow> int list" where
  "mainThreadStep adj d i =
     (case mainThreadPixel adj (rd d i) (rd d (i + 1)) (rd d (i + 2)) of (r, g, b) \<Rightarrow>
        put (put (put d i (mathMax (Fin 0) (mathMin (Fin 255) (mathRound r))))
                 (i + 1) (mathMax (Fin 0) (mathMin (Fin 255) (mathRound g))))
            (i + 2) (mathMax (Fin 0) (mathMin (Fin 255) (mathRound b))))"

text \<open>\<open>applyFilter\<close>: the \<open>switch\<close> has the three cases below and no default.\<close>

definition applyFilter :: "imageData \<Rightarrow> string \<Rightarrow> imageData" where
  "applyFilter img name =
     (let starts = pixelStarts (length (data img))
      in if name = ''grayscale''
         then img\<lparr>data := foldl (\<lambda>d i.
                  (let avg = rd d i * Fin 0.299 + rd d (i + 1) * Fin 0.587 + rd d (i + 2) * Fin 0.114
                   in put (put (put d (i + 2) avg) (i + 1) avg) i avg)) (data img) starts\<rparr>
         else if name = ''sepia''
         then img\<lparr>data := foldl (\<lambda>d i.
                  (let r = rd d i; g = rd d (i + 1); b = rd d (i + 2);
                       d1 = put d i (mathMin (Fin 255) (r * Fin 0.393 + g * Fin 0.769 + b * Fin 0.189));
                       d2 = put d1 (i + 1)
                              (mathMin (Fin 255) (r * Fin 0.349 + g * Fin 0.686 + b * Fin 0.168))
                   in put d2 (i + 2)
                        (mathMin (Fin 255) (r * Fin 0.272 + g * Fin 0.534 + b * Fin 0.131))))
                (data img) starts\<rparr>
         else if name = ''invert''
         then img\<lparr>data := foldl (\<lambda>d i.
                  (let d1 = put d i (Fin 255 - rd d i);
                       d2 = put d1 (i + 1) (Fin 255 - rd d1 (i + 1))
                   in put d2 (i + 2) (Fin 255 - rd d2 (i + 2)))) (data img) starts\<rparr>
         else img)"

subsection \<open>The browser\<close>

text \<open>
  The answer of the worker to \<open>executeImageOperation(worker, action, imageData, params)\<close>:
  the promise is rejected with an error message (\<open>Inl\<close>) or resolved with an image.
\<close>

type_synonym executor = "string \<Rightarrow> imageData \<Rightarrow> imageAdjustments \<Rightarrow> string + imageData"

text \<open>
  What the processor asks of the browser is a parameter of the model: loading an image
  (\<open>None\<close> when it fails), its natural size, creating the worker (\<open>None\<close> when that
  throws), whether \<open>getContext('2d')\<close> gives a context, the raster drawn from the source
  with a rotation and flips at a given size, the data URL of a canvas, and the radial
  gradient that \<open>applyVignette\<close> multiplies onto the canvas.
\<close>

record 'img browser =
  loadImage :: "string \<Rightarrow> 'img option"
  naturalSize :: "'img \<Rightarrow> nat \<times> nat"
  createImageProcessingWorker :: "executor option"
  contextAvailable :: bool
  drawSource :: "'img \<Rightarrow> real \<Rightarrow> bool \<Rightarrow> bool \<Rightarrow> nat \<Rightarrow> nat \<Rightarrow> imageData"
  canvasToDataURL :: "imageData \<Rightarrow> string"
  gradientFill :: "real \<Rightarrow> imageData \<Rightarrow> imageData"

subsection \<open>The class \<open>ImageProcessor\<close>\<close>

text \<open>
  A canvas is its pixel content; \<open>ctx\<close> says whether the context is set. A call returns
  \<open>Inl\<close> of the message when it throws and \<open>Inr\<close> of its value otherwise, \<open>None\<close> being
  \<open>null\<close>. Calls are modelled one at a time, each running to its end.
\<close>

record 'img imageProcessor =
  sourceImage :: "'img option"
  canvas :: "imageData option"
  editCanvas :: "imageData option"
  ctx :: bool
  originalWidth :: nat
  originalHeight :: nat
  qualityFactor :: real
  worker :: "executor option"
  adjustments :: imageAdjustments

definition newImageProcessor :: "'img imageProcessor" where
  "newImageProcessor =
     \<lparr>sourceImage = None, canvas = None, editCanvas = None, ctx = False,
      originalWidth = 0, originalHeight = 0, qualityFactor = 1, worker = None,
      adjustments = defaultAdjustments\<rparr>"

definition cleanup :: "'img imageProcessor \<Rightarrow> 'img imageProcessor" where
  "cleanup st = st\<lparr>sourceImage := None, canvas := None, editCanvas := None, ctx := False,
                   originalWidth := 0, originalHeight := 0\<rparr>"

definition destroy :: "'img imageProcessor \<Rightarrow> 'img imageProcessor" where
  "destroy st = (cleanup st)\<lparr>worker := None\<rparr>"

definition blankCanvas :: "nat \<Rightarrow> nat \<Rightarrow> imageData" where
  "blankCanvas w h = \<lparr>width = w, height = h, data = replicate (w * h * 4) 0\<rparr>"

definition scaled :: "nat \<Rightarrow> real \<Rightarrow> nat" where
  "scaled n q = nat \<lfloor>real n * q + 1 / 2\<rfloor>"

definition initialize ::
  "'img browser \<Rightarrow> string \<Rightarrow> string \<Rightarrow> 'img imageProcessor \<Rightarrow> (string + unit) \<times> 'img imageProcessor" where
  "initialize env imageDataUrl previewQuality st0 =
     (let st1 = (cleanup st0)
            \<lparr>qualityFactor := (if previewQuality = ''low'' then 0.5
                               else if previewQuality = ''medium'' then 0.75 else 1)\<rparr>;
          st2 = (case createImageProcessingWorker env of
                   Some w \<Rightarrow> st1\<lparr>worker := Some w\<rparr>
                 | None \<Rightarrow> st1);
          st3 = st2\<lparr>adjustments := defaultAdjustments\<rparr>
      in case loadImage env imageDataUrl of
           None \<Rightarrow> (Inl ''Failed to load image'', st3)
         | Some img \<Rightarrow>
             (let (nw, nh) = naturalSize env img;
                  scaledWidth = scaled nw (qualityFactor st3);
                  scaledHeight = scaled nh (qualityFactor st3);
                  st4 = st3\<lparr>sourceImage := Some img, originalWidth := nw, originalHeight := nh,
                            canvas := Some (blankCanvas scaledWidth scaledHeight),
                            editCanvas := Some (blankCanvas scaledWidth scaledHeight),
                            ctx := contextAvailable env\<rparr>
              in if contextAvailable env
                 then (Inr (),
                       st4\<lparr>canvas := Some (drawSource env img 0 False False scaledWidth scaledHeight)\<rparr>)
                 else (Inl ''Failed to create canvas context'', st4)))"

text \<open>The processing on the main thread, from the content of the canvas.\<close>

definition mainThreadStages :: "'img browser \<Rightarrow> imageAdjustments \<Rightarrow> imageData \<Rightarrow> imageData" where
  "mainThreadStages env adj img =
     (let i1 = img\<lparr>data := foldl (mainThreadStep adj) (data img) (pixelStarts (length (data img)))\<rparr>;
          i2 = (if filterType adj \<noteq> ''none'' then applyFilter i1 (filterType adj) else i1)
      in if vignette adj > 0 then gradientFill env (vignette adj / 100) i2 else i2)"

definition processImageOnMainThread ::
  "'img browser \<Rightarrow> 'img imageProcessor \<Rightarrow> (string + string option) \<times> 'img imageProcessor" where
  "processImageOnMainThread env st =
     (case (sourceImage st, canvas st, editCanvas st) of
        (Some src, Some cv, Some ec) \<Rightarrow>
          if \<not> ctx st then (Inr None, st)
          else if \<not> contextAvailable env then (Inr None, st)
          else (let processed = mainThreadStages env (adjustments st) cv
                in (Inr (Some (canvasToDataURL env processed)),
                    st\<lparr>editCanvas := Some processed, canvas := Some processed\<rparr>))
      | _ \<Rightarrow> (Inr None, st))"

text \<open>The three operations sent to the worker one after the other; the first rejection
  ends the sequence.\<close>

definition workerStages :: "executor \<Rightarrow> imageAdjustments \<Rightarrow> imageData \<Rightarrow> string + imageData" where
  "workerStages exec adj img =
     (case exec ''basic-adjustments'' img adj of
        Inl e \<Rightarrow> Inl e
      | Inr i1 \<Rightarrow>
          (case exec ''color-adjustments'' i1 adj of
             Inl e \<Rightarrow> Inl e
           | Inr i2 \<Rightarrow>
               if filterType adj \<noteq> ''none'' \<or> vignette adj > 0 \<or> noise adj > 0 \<or> blur adj > 0
               then exec ''effects'' i2 adj
               else Inr i2))"

definition doProcessImage ::
  "'img browser \<Rightarrow> 'img imageProcessor \<Rightarrow> (string + string option) \<times> 'img imageProcessor" where
  "doProcessImage env st =
     (case (sourceImage st, canvas st) of
        (Some src, Some cv) \<Rightarrow>
          if \<not> ctx st then (Inr None, st)
          else
            (let scaledWidth = scaled (originalWidth st) (qualityFactor st);
                 scaledHeight = scaled (originalHeight st) (qualityFactor st);
                 adj = adjustments st;
                 imageData = drawSource env src (rotation adj) (flipX adj) (flipY adj)
                               scaledWidth scaledHeight;
                 st1 = st\<lparr>canvas := Some imageData\<rparr>
             in case worker st of
                  Some exec \<Rightarrow>
                    (case workerStages exec adj imageData of
                       Inr result \<Rightarrow>
                         (Inr (Some (canvasToDataURL env result)), st1\<lparr>canvas := Some result\<rparr>)
                     | Inl e \<Rightarrow> processImageOnMainThread env st1)
                | None \<Rightarrow> processImageOnMainThread env st1)
      | _ \<Rightarrow> (Inr None, st))"

definition processImage ::
  "'img browser \<Rightarrow> 'img imageProcessor \<Rightarrow> (string + string option) \<times> 'img imageProcessor" where
  "processImage env st =
     (if sourceImage st = None \<or> canvas st = None \<or> \<not> ctx st then (Inr None, st)
      else doProcessImage env st)"

text \<open>\<open>updateAdjustments\<close>: the partial object is given by the update it makes to the
  current adjustments.\<close>

definition updateAdjustments ::
  "'img browser \<Rightarrow> (imageAdjustments \<Rightarrow> imageAdjustments) \<Rightarrow> 'img imageProcessor
     \<Rightarrow> (string + string option) \<times> 'img imageProcessor" where
  "updateAdjustments env newAdjustments st =
     processImage env (st\<lparr>adjustments := newAdjustments (adjustments st)\<rparr>)"

definition resetAdjustments ::
  "'img browser \<Rightarrow> 'img imageProcessor \<Rightarrow> (string + string option) \<times> 'img imageProcessor" where
  "resetAdjustments env st = processImage env (st\<lparr>adjustments := defaultAdjustments\<rparr>)"

definition generateFinalImage ::
  "'img browser \<Rightarrow> 'img imageProcessor \<Rightarrow> (string + string option) \<times> 'img imageProcessor" where
  "generateFinalImage env st =
     (case sourceImage st of
        None \<Rightarrow> (Inr None, st)
      | Some src0 \<Rightarrow>
          if \<not> contextAvailable env then (Inr None, st)
          else
            (let oldQualityFactor = qualityFactor st;
                 full = blankCanvas (originalWidth st) (originalHeight st);
                 st1 = st\<lparr>qualityFactor := 1,
                          canvas := map_option (\<lambda>_. full) (canvas st),
                          editCanvas := map_option (\<lambda>_. full) (editCanvas st)\<rparr>;
                 (fullQualityDataUrl, st2) = processImage env st1;
                 w = scaled (originalWidth st2) oldQualityFactor;
                 h = scaled (originalHeight st2) oldQualityFactor;
                 st3 = st2\<lparr>qualityFactor := oldQualityFactor,
                           canvas := map_option (\<lambda>_. blankCanvas w h) (canvas st2),
                           editCanvas := map_option (\<lambda>_. blankCanvas w h) (editCanvas st2)\<rparr>;
                 st4 = (case (sourceImage st3, canvas st3) of
                          (Some src, Some cv) \<Rightarrow>
                            if ctx st3
                            then st3\<lparr>canvas := Some (drawSource env src 0 False False w h)\<rparr>
                            else st3
                        | _ \<Rightarrow> st3)
             in (fullQualityDataUrl, st4)))"

text \<open>
  The states in which the processor holds no image to work on: as created, after
  \<open>destroy\<close>, and after an \<open>initialize\<close> that threw.
\<close>

definition uninitialized :: "'img imageProcessor \<Rightarrow> bool" where
  "uninitialized st = (sourceImage st = None \<or> canvas st = None \<or> \<not> ctx st)"

text \<open>A browser without images and without a worker, for the examples.\<close>

definition plainDraw :: "unit \<Rightarrow> real \<Rightarrow> bool \<Rightarrow> bool \<Rightarrow> nat \<Rightarrow> nat \<Rightarrow> imageData" where
  "plainDraw src rot fx fy w h = blankCanvas w h"

definition noImage :: "string \<Rightarrow> unit option" where
  "noImage url = None"

definition noSize :: "unit \<Rightarrow> nat \<times> nat" where
  "noSize img = (0, 0)"

definition dataUrlOf :: "imageData \<Rightarrow> string" where
  "dataUrlOf img = ''data:image/png''"

definition noGradient :: "real \<Rightarrow> imageData \<Rightarrow> imageData" where
  "noGradient amount img = img"

definition emptyBrowser :: "unit browser" where
  "emptyBrowser =
     \<lparr>loadImage = noImage, naturalSize = noSize, createImageProcessingWorker = None,
      contextAvailable = True, drawSource = plainDraw, canvasToDataURL = dataUrlOf,
      gradientFill = noGradient\<rparr>"




section \<open>Requests to the worker (\<open>executeImageOperation\<close>)\<close>

text \<open>
  Every call of \<open>executeImageOperation\<close> takes \<open>Date.now().toString()\<close> as its
  \<open>operationId\<close>, adds its own \<open>message\<close> listener to the worker and posts the request.
  The identifier is modelled by the number the clock returned (two identifiers are
  equal strings exactly when the numbers are equal). The worker port is the list of
  the calls made so far, in order: the identifier of the call, whether its listener is
  still attached, and the state of the promise it returned.
\<close>

datatype 'r promiseState = Pending | Resolved 'r | Rejected string

record 'r operation =
  operationId :: nat
  attached :: bool
  promise :: "'r promiseState"

record 'r workerMessage =
  msgId :: nat
  success :: bool
  result :: 'r
  error :: string


text \<open>\<open>handleMessage\<close> of one call, run on a message of the worker. A promise that is
  settled stays as it is.\<close>

definition settle :: "'r promiseState \<Rightarrow> 'r promiseState \<Rightarrow> 'r promiseState" where
  "settle p outcome = (if p = Pending then outcome else p)"

definition handleMessage :: "'r workerMessage \<Rightarrow> 'r operation \<Rightarrow> 'r operation" where
  "handleMessage e op =
     (if msgId e = operationId op
      then op\<lparr>attached := False,
              promise := settle (promise op)
                (if success e then Resolved (result e)
                 else Rejected (if error e = [] then ''Unknown error in image processing''
                                else error e))\<rparr>
      else op)"

text \<open>A message event of the worker runs every listener that is attached.\<close>

definition dispatchMessage :: "'r workerMessage \<Rightarrow> 'r operation list \<Rightarrow> 'r operation list" where
  "dispatchMessage e port = map (\<lambda>op. if attached op then handleMessage e op else op) port"



section \<open>Example inputs\<close>

text \<open>A source of random numbers that always returns one half, and an image of one
  opaque pixel.\<close>

definition halfRandom :: "nat \<Rightarrow> real" where
  "halfRandom k = 1 / 2"

definition onePixel :: "int \<Rightarrow> int \<Rightarrow> int \<Rightarrow> imageData" where
  "onePixel r g b = \<lparr>width = 1, height = 1, data = [r, g, b, 255]\<rparr>"

text \<open>Adjustments in range with a filter and every effect switched on.\<close>

definition sampleAdjustments :: imageAdjustments where
  "sampleAdjustments =
     defaultAdjustments\<lparr>brightness := 120, sharpen := 40, temperature := 30,
       blur := 40, vignette := 50, noise := 30, filterType := ''sepia''\<rparr>"







text \<open>An image of eight by two grey pixels, and the strongest vignette.\<close>

definition wideImage :: imageData where
  "wideImage = \<lparr>width = 8, height = 2,
      data = [200, 200, 200, 255,  200, 200, 200, 255,  200, 200, 200, 255,  200, 200, 200, 255,
              200, 200, 200, 255,  200, 200, 200, 255,  200, 200, 200, 255,  200, 200, 200, 255,
              200, 200, 200, 255,  200, 200, 200, 255,  200, 200, 200, 255,  200, 200, 200, 255,
              200, 200, 200, 255,  200, 200, 200, 255,  200, 200, 200, 255,  200, 200, 200, 255]\<rparr>"

definition fullVignette :: imageAdjustments where
  "fullVignette = defaultAdjustments\<lparr>vignette := 100\<rparr>"

section \<open>Undo/redo history\<close>

text \<open>
  Both editor components keep a list of encoded images (data URLs) and a cursor.
  The cursor starts at \<open>-1\<close> on an empty list, so it is an \<open>int\<close>.
\<close>

record history =
  entries :: "string list"
  index :: int

definition emptyHistory :: history where
  "emptyHistory = \<lparr>entries = [], index = - 1\<rparr>"

text \<open>
  \<open>Array.prototype.slice(start, end)\<close>: a negative argument counts from the end of
  the array, and both ends are clipped to the array.
\<close>

definition relIndex :: "nat \<Rightarrow> int \<Rightarrow> nat" where
  "relIndex len k = (if k < 0 then nat (max (int len + k) 0) else min (nat k) len)"

definition slice :: "'a list \<Rightarrow> int \<Rightarrow> int \<Rightarrow> 'a list" where
  "slice xs start fin = drop (relIndex (length xs) start) (take (relIndex (length xs) fin) xs)"

definition sliceFrom :: "'a list \<Rightarrow> int \<Rightarrow> 'a list" where
  "sliceFrom xs start = drop (relIndex (length xs) start) xs"

subsection \<open>\<open>ProImageEditor\<close> (pro-image-editor.tsx)\<close>

text \<open>
  \<open>saveToHistory\<close>: the argument is the data URL of the editing canvas, \<open>None\<close> when
  \<open>canvasRef.current\<close> is null (then nothing is recorded).
\<close>

definition saveToHistory :: "string option \<Rightarrow> history \<Rightarrow> history" where
  "saveToHistory canvasUrl h =
     (case canvasUrl of
        None \<Rightarrow> h
      | Some dataUrl \<Rightarrow>
          (let es = (if index h < int (length (entries h)) - 1
                     then slice (entries h) 0 (index h + 1)
                     else entries h);
               es' = es @ [dataUrl]
           in \<lparr>entries = es', index = int (length es') - 1\<rparr>))"

definition handleUndo :: "history \<Rightarrow> history" where
  "handleUndo h = (if index h > 0 then h\<lparr>index := index h - 1\<rparr> else h)"

definition handleRedo :: "history \<Rightarrow> history" where
  "handleRedo h =
     (if index h < int (length (entries h)) - 1 then h\<lparr>index := index h + 1\<rparr> else h)"

subsection \<open>\<open>ImageEditorTools\<close> (image-editor-tools.tsx)\<close>

text \<open>
  The history update at the end of \<open>applyChanges\<close>: \<open>setHistory\<close> with the new list,
  cut to its last ten entries, then \<open>setHistoryIndex(prev => prev + 1)\<close>. The
  \<open>historyIndex\<close> that the first update reads is the state of the last render; commits
  are modelled one at a time, so it is the current cursor.
\<close>

definition applyChangesHistory :: "string \<Rightarrow> history \<Rightarrow> history" where
  "applyChangesHistory newImageDataUrl h =
     (let newHistory = slice (entries h) 0 (index h + 1) @ [newImageDataUrl]
      in \<lparr>entries = (if length newHistory > 10 then sliceFrom newHistory (- 10) else newHistory),
          index = index h + 1\<rparr>)"

definition toolsUndo :: "history \<Rightarrow> history" where
  "toolsUndo h = (if index h > 0 then h\<lparr>index := index h - 1\<rparr> else h)"

definition toolsRedo :: "history \<Rightarrow> history" where
  "toolsRedo h =
     (if index h < int (length (entries h)) - 1 then h\<lparr>index := index h + 1\<rparr> else h)"

section \<open>Properties of the colour conversion\<close>

lemma toUint8Clamp_range: "0 \<le> toUint8Clamp v \<and> toUint8Clamp v \<le> 255"
proof (cases v)
  case (Fin a)
  have "0 < a \<Longrightarrow> a < 255 \<Longrightarrow> 0 \<le> roundHalfEven a \<and> roundHalfEven a \<le> 255"
  proof -
    assume a: "0 < a" "a < 255"
    have f0: "0 \<le> \<lfloor>a\<rfloor>" using a by simp
    have f1: "\<lfloor>a\<rfloor> \<le> 254" using a by (simp add: floor_le_iff)
    show ?thesis using f0 f1 by (auto simp: roundHalfEven_def Let_def)
  qed
  with Fin show ?thesis by (auto simp: not_le)
qed simp_all

subsection \<open>Arithmetic on finite numbers\<close>

lemma mathMax_Fin [simp]: "mathMax (Fin a) (Fin b) = Fin (max a b)"
  by (simp add: mathMax_def max_def)

lemma mathMin_Fin [simp]: "mathMin (Fin a) (Fin b) = Fin (min a b)"
  by (auto simp add: mathMin_def min_def)

lemma minus_Fin [simp]: "Fin a - Fin b = Fin (a - b)"
  by (simp add: minus_jsnum_def)

lemma strictEq_Fin [simp]: "strictEq (Fin a) (Fin b) = (a = b)"
  by (simp add: strictEq_def)











section \<open>Properties of the stores into the pixel data\<close>

lemma length_put [simp]: "length (put xs i v) = length xs"
  by (simp add: put_def)

lemma nth_put: "j < length xs \<Longrightarrow> put xs i v ! j = (if j = i then toUint8Clamp v else xs ! j)"
  by (simp add: put_def)

lemma nth_put_other [simp]: "j \<noteq> i \<Longrightarrow> put xs i v ! j = xs ! j"
  by (simp add: put_def)

lemma validBytes_put [simp]: "validBytes xs \<Longrightarrow> validBytes (put xs i v)"
  using toUint8Clamp_range[of v]
  by (auto simp: validBytes_def put_def list_all_iff dest!: set_update_subset_insert[THEN subsetD])

lemma foldl_invariant:
  assumes "P a" and "\<And>s x. x \<in> set xs \<Longrightarrow> P s \<Longrightarrow> P (f s x)"
  shows "P (foldl f a xs)"
  using assms by (induction xs arbitrary: a) auto

lemma pixelStarts_mod: "i \<in> set (pixelStarts n) \<Longrightarrow> i mod 4 = 0"
  by (auto simp: pixelStarts_def)

subsection \<open>Every store is a clamped byte\<close>

lemma length_put3 [simp]: "length (put3 d i r g b) = length d"
  by (simp add: put3_def)

lemma validBytes_put3 [simp]: "validBytes d \<Longrightarrow> validBytes (put3 d i r g b)"
  by (simp add: put3_def)

lemma validBytes_basicStep: "validBytes d \<Longrightarrow> validBytes (basicStep p d i)"
  by (simp add: basicStep_def split: prod.splits)

lemma validBytes_colorStep: "validBytes d \<Longrightarrow> validBytes (colorStep p d i)"
  by (simp add: colorStep_def split: prod.splits)

lemma validBytes_unsharpStep: "validBytes d \<Longrightarrow> validBytes (unsharpStep a bl d i)"
  unfolding unsharpStep_def by (rule foldl_invariant) (simp_all add: Let_def)

lemma validBytes_applyUnsharpMask:
  "validBytes (data img) \<Longrightarrow> validBytes (data (applyUnsharpMask img a))"
  unfolding applyUnsharpMask_def Let_def
  by (simp, rule foldl_invariant) (simp_all add: validBytes_unsharpStep)

lemma validBytes_applyBasicAdjustments:
  "validBytes (data img) \<Longrightarrow> validBytes (data (applyBasicAdjustments img p))"
proof -
  assume v: "validBytes (data img)"
  have "validBytes (foldl (basicStep p) (data img) (pixelStarts (length (data img))))"
    by (rule foldl_invariant) (simp_all add: v validBytes_basicStep)
  then show ?thesis
    by (simp add: applyBasicAdjustments_def Let_def validBytes_applyUnsharpMask)
qed

lemma validBytes_applyColorAdjustments:
  "validBytes (data img) \<Longrightarrow> validBytes (data (applyColorAdjustments img p))"
  unfolding applyColorAdjustments_def
  by (simp, rule foldl_invariant) (simp_all add: validBytes_colorStep)

lemma validBytes_writeAverages: "validBytes d \<Longrightarrow> validBytes (writeAverages d idx acc)"
  by (simp add: writeAverages_def split: prod.splits)

lemma validBytes_horizontalPass: "validBytes d \<Longrightarrow> validBytes (horizontalPass d t w h r)"
  unfolding horizontalPass_def
  by (rule foldl_invariant, assumption, rule foldl_invariant) (simp_all add: validBytes_writeAverages)

lemma validBytes_verticalPass: "validBytes d \<Longrightarrow> validBytes (verticalPass d t w h r)"
  unfolding verticalPass_def
  by (rule foldl_invariant, assumption, rule foldl_invariant) (simp_all add: validBytes_writeAverages)

lemma validBytes_applyBoxBlur: "validBytes d \<Longrightarrow> validBytes (applyBoxBlur d w h r)"
  by (simp add: applyBoxBlur_def Let_def validBytes_horizontalPass validBytes_verticalPass)

lemma validBytes_filter_steps:
  assumes "validBytes d"
  shows "validBytes (grayscaleStep d i)" "validBytes (sepiaStep d i)" "validBytes (invertStep d i)"
    "validBytes (vintageStep d i)" "validBytes (coolStep d i)" "validBytes (warmStep d i)"
    "validBytes (dramaticStep d i)" "validBytes (noirStep d i)" "validBytes (fadeStep d i)"
  using assms
  by (simp_all add: grayscaleStep_def sepiaStep_def invertStep_def vintageStep_def coolStep_def
      warmStep_def dramaticStep_def noirStep_def fadeStep_def Let_def split: prod.splits)

lemma validBytes_applyFilterPreset:
  assumes "validBytes (data img)"
  shows "validBytes (data (applyFilterPreset img name))"
proof (cases "filters name")
  case None
  then show ?thesis using assms by (simp add: applyFilterPreset_def)
next
  case (Some step)
  then have st: "\<And>d i. validBytes d \<Longrightarrow> validBytes (step d i)"
    by (auto simp: filters_def validBytes_filter_steps split: if_splits)
  have "validBytes (foldl step (data img) (pixelStarts (length (data img))))"
    by (rule foldl_invariant) (simp_all add: assms st)
  then show ?thesis using Some by (simp add: applyFilterPreset_def)
qed

lemma validBytes_vignetteStep: "validBytes d \<Longrightarrow> validBytes (vignetteStep a w h y d x)"
  by (simp add: vignetteStep_def Let_def)

lemma validBytes_applyVignetteEffect:
  "validBytes (data img) \<Longrightarrow> validBytes (data (applyVignetteEffect img a))"
  unfolding applyVignetteEffect_def
  by (simp, rule foldl_invariant, assumption, rule foldl_invariant)
     (simp_all add: validBytes_vignetteStep)

lemma validBytes_noiseStep: "validBytes (fst st) \<Longrightarrow> validBytes (fst (noiseStep rand a st i))"
  by (cases st) (simp add: noiseStep_def Let_def)

lemma validBytes_applyNoiseEffect:
  "validBytes (data img) \<Longrightarrow> validBytes (data (applyNoiseEffect rand img a))"
  unfolding applyNoiseEffect_def
  by (simp, rule foldl_invariant[where P = "\<lambda>st. validBytes (fst st)"])
     (simp_all add: validBytes_noiseStep)

lemma validBytes_applyEffects:
  "validBytes (data img) \<Longrightarrow> validBytes (data (applyEffects rand img p))"
  by (simp add: applyEffects_def Let_def validBytes_applyFilterPreset
      validBytes_applyVignetteEffect validBytes_applyNoiseEffect validBytes_applyBoxBlur)

text \<open>
  C7. When the input is well formed (four bytes per pixel, every byte in \<open>[0, 255]\<close>)
  and the parameters are in range, every byte of the output of the basic adjustments, of the colour adjustments and of
  the effects (filter preset, vignette, noise with any random source, blur) lies in
  \<open>[0, 255]\<close>.
\<close>

theorem outputs_are_bytes:
  assumes "wellFormed img" and "inRange p"
  shows "validBytes (data (applyBasicAdjustments img p))
       \<and> validBytes (data (applyColorAdjustments img p))
       \<and> validBytes (data (applyEffects rand img p))"
  using assms(1)
  by (simp add: wellFormed_def validBytes_applyBasicAdjustments
      validBytes_applyColorAdjustments validBytes_applyEffects)

theorem outputs_are_bytes_witness:
  "wellFormed (onePixel 10 200 90) \<and> inRange sampleAdjustments
   \<and> validBytes (data (applyBasicAdjustments (onePixel 10 200 90) sampleAdjustments))
   \<and> validBytes (data (applyColorAdjustments (onePixel 10 200 90) sampleAdjustments))
   \<and> validBytes (data (applyEffects halfRandom (onePixel 10 200 90) sampleAdjustments))"
  using outputs_are_bytes [of "onePixel 10 200 90" sampleAdjustments halfRandom]
  by (simp add: onePixel_def wellFormed_def validBytes_def sampleAdjustments_def inRange_def
      defaultAdjustments_def filterNames_def)

subsection \<open>The alpha channel\<close>

lemma alphaKept_refl [simp]: "alphaKept d d"
  by (simp add: alphaKept_def)

lemma alphaKept_put:
  assumes "alphaKept d0 d" "i mod 4 \<noteq> 3"
  shows "alphaKept d0 (put d i v)"
proof -
  have "put d i v ! j = d0 ! j" if "j mod 4 = 3" for j
  proof -
    have "j \<noteq> i" using that assms(2) by auto
    then show ?thesis using assms(1) that by (simp add: alphaKept_def)
  qed
  then show ?thesis using assms(1) by (simp add: alphaKept_def)
qed

lemma alphaKept_put012:
  assumes "alphaKept d0 d" "i mod 4 = 0"
  shows "alphaKept d0 (put d i v)" "alphaKept d0 (put d (Suc i) v)"
    "alphaKept d0 (put d (Suc (Suc i)) v)"
proof -
  have "i mod 4 \<noteq> 3" "Suc i mod 4 \<noteq> 3" "Suc (Suc i) mod 4 \<noteq> 3"
    using assms(2) by presburger+
  then show "alphaKept d0 (put d i v)" "alphaKept d0 (put d (Suc i) v)"
    "alphaKept d0 (put d (Suc (Suc i)) v)"
    using assms(1) by (simp_all add: alphaKept_put)
qed

lemma alphaKept_basicStep:
  "alphaKept d0 d \<Longrightarrow> i mod 4 = 0 \<Longrightarrow> alphaKept d0 (basicStep p d i)"
  by (simp add: basicStep_def alphaKept_put012 split: prod.splits)

lemma alphaKept_colorStep:
  "alphaKept d0 d \<Longrightarrow> i mod 4 = 0 \<Longrightarrow> alphaKept d0 (colorStep p d i)"
  by (simp add: colorStep_def alphaKept_put012 split: prod.splits)

lemma alphaKept_unsharpStep:
  assumes "alphaKept d0 d" "i mod 4 = 0"
  shows "alphaKept d0 (unsharpStep a bl d i)"
  unfolding unsharpStep_def
proof (rule foldl_invariant)
  show "alphaKept d0 d" by fact
next
  fix s c assume c: "c \<in> set [0..<3]" and s: "alphaKept d0 s"
  have "(i + c) mod 4 \<noteq> 3" using c assms(2) by auto
  then show "alphaKept d0 (let idx = i + c; orig = rd s idx; blurred = rd bl idx; diff = orig - blurred
      in put s idx (mathMax (Fin 0) (mathMin (Fin 255) (orig + a * diff))))"
    using s by (simp add: Let_def alphaKept_put)
qed

lemma alphaKept_applyBasicAdjustments:
  "alphaKept (data img) (data (applyBasicAdjustments img p))"
proof -
  let ?d1 = "foldl (basicStep p) (data img) (pixelStarts (length (data img)))"
  have a1: "alphaKept (data img) ?d1"
    by (rule foldl_invariant) (simp_all add: alphaKept_basicStep pixelStarts_mod)
  have a2: "alphaKept (data img) (foldl (unsharpStep a bl) ?d1 (pixelStarts n))" for a bl n
    by (rule foldl_invariant) (simp_all add: a1 alphaKept_unsharpStep pixelStarts_mod)
  show ?thesis
    by (simp add: applyBasicAdjustments_def applyUnsharpMask_def Let_def a1 a2)
qed

lemma alphaKept_applyColorAdjustments:
  "alphaKept (data img) (data (applyColorAdjustments img p))"
  unfolding applyColorAdjustments_def
  by (simp, rule foldl_invariant) (simp_all add: alphaKept_colorStep pixelStarts_mod)

text \<open>
  C10. The basic adjustments (with or without sharpening) and the colour adjustments
  leave the alpha byte of every pixel as it was, for all parameters.
\<close>

theorem alpha_channel_unchanged:
  assumes "k < width img * height img"
    and "length (data img) = width img * height img * 4"
  shows "data (applyBasicAdjustments img p) ! (4 * k + 3) = data img ! (4 * k + 3)
       \<and> data (applyColorAdjustments img p) ! (4 * k + 3) = data img ! (4 * k + 3)
       \<and> length (data (applyBasicAdjustments img p)) = length (data img)
       \<and> length (data (applyColorAdjustments img p)) = length (data img)"
proof -
  have m: "(4 * k + 3) mod 4 = 3" by presburger
  show ?thesis
    using alphaKept_applyBasicAdjustments[of img p] alphaKept_applyColorAdjustments[of img p] m
    unfolding alphaKept_def by blast
qed

theorem alpha_channel_unchanged_witness:
  "(0::nat) < width (onePixel 10 200 90) * height (onePixel 10 200 90)
   \<and> length (data (onePixel 10 200 90)) = width (onePixel 10 200 90) * height (onePixel 10 200 90) * 4
   \<and> data (applyBasicAdjustments (onePixel 10 200 90) sampleAdjustments) ! 3 = 255
   \<and> data (applyColorAdjustments (onePixel 10 200 90) sampleAdjustments) ! 3 = 255"
  using alpha_channel_unchanged [of 0 "onePixel 10 200 90" sampleAdjustments]
  by (simp add: onePixel_def)

section \<open>Properties of the pipeline\<close>

lemma basic_default:
  "applyBasicAdjustments (onePixel 200 200 200) defaultAdjustments = onePixel 255 255 255"
  by (simp add: applyBasicAdjustments_def onePixel_def defaultAdjustments_def pixelStarts_def
      basicStep_def basicPixel_def contrastFactorOf_def clipRound_def rd_def put_def Let_def)

lemma color_default:
  "applyColorAdjustments (onePixel 255 255 255) defaultAdjustments = onePixel 255 255 255"
  by (simp add: applyColorAdjustments_def onePixel_def defaultAdjustments_def pixelStarts_def
      colorStep_def colorPixel_def rgbToHsl_def hslToRgb_def mathMax3_def mathMin3_def
      clipRound_def rd_def put_def Let_def)

text \<open>
  C1. With the default adjustments the pipeline is not the identity: the contrast
  factor at \<open>contrast = 100\<close> is \<open>259 * 355 / (255 * 159)\<close>, about 2.27, so the
  grey pixel \<open>(200, 200, 200)\<close> comes out white, on the worker path and on the main
  thread alike.
\<close>

theorem default_adjustments_change_image:
  "workerStages (onmessage halfRandom) defaultAdjustments (onePixel 200 200 200)
     = Inr (onePixel 255 255 255)
   \<and> mainThreadStages emptyBrowser defaultAdjustments (onePixel 200 200 200)
     = onePixel 255 255 255"
proof -
  have m: "mainThreadStages emptyBrowser defaultAdjustments (onePixel 200 200 200)
     = onePixel 255 255 255"
    by (simp add: mainThreadStages_def onePixel_def defaultAdjustments_def pixelStarts_def
      mainThreadStep_def mainThreadPixel_def rd_def put_def Let_def)
  have f: "filterType defaultAdjustments = ''none''" "vignette defaultAdjustments = 0"
    "noise defaultAdjustments = 0" "blur defaultAdjustments = 0"
    by (simp_all add: defaultAdjustments_def)
  have w: "workerStages (onmessage halfRandom) defaultAdjustments (onePixel 200 200 200)
     = Inr (onePixel 255 255 255)"
    by (simp add: workerStages_def onmessage_def basic_default color_default f)
  from m w show ?thesis by simp
qed

theorem default_adjustments_change_image_witness:
  "workerStages (onmessage halfRandom) defaultAdjustments (onePixel 200 200 200)
     \<noteq> Inr (onePixel 200 200 200)
   \<and> data (mainThreadStages emptyBrowser defaultAdjustments (onePixel 200 200 200)) ! 0 - 200 = 55"
  using default_adjustments_change_image by (simp add: onePixel_def)

section \<open>The fallback and the stages\<close>

lemma roundHalfEven_of_int [simp]: "roundHalfEven (of_int n) = n"
  by (simp add: roundHalfEven_def)

lemma roundHalfEven_numeral [simp]: "roundHalfEven (numeral k) = numeral k"
  using roundHalfEven_of_int[of "numeral k"] by simp





subsection \<open>The fallback against the stages\<close>


























section \<open>Properties of the vignette\<close>

lemma foldl_phase:
  assumes "distinct xs"
    and other: "\<And>s x. x \<in> set xs \<Longrightarrow> x \<noteq> x0 \<Longrightarrow> (B s \<longrightarrow> B (f s x)) \<and> (A s \<longrightarrow> A (f s x))"
    and hit: "\<And>s. B s \<Longrightarrow> A (f s x0)"
  shows "(B s \<longrightarrow> (if x0 \<in> set xs then A (foldl f s xs) else B (foldl f s xs)))
       \<and> (A s \<longrightarrow> x0 \<notin> set xs \<longrightarrow> A (foldl f s xs))"
  using assms(1,2)
proof (induction xs arbitrary: s)
  case Nil
  then show ?case by simp
next
  case (Cons x xs)
  have d: "distinct xs" and nx: "x \<notin> set xs" using Cons.prems(1) by simp_all
  have o: "\<And>s y. y \<in> set xs \<Longrightarrow> y \<noteq> x0 \<Longrightarrow> (B s \<longrightarrow> B (f s y)) \<and> (A s \<longrightarrow> A (f s y))"
    using Cons.prems(2) by simp
  note IH = Cons.IH[OF d o]
  show ?case
  proof (cases "x = x0")
    case True
    then have "x0 \<notin> set xs" using nx by simp
    then show ?thesis using True IH[of "f s x0"] hit[of s] by simp
  next
    case False
    then have "(B s \<longrightarrow> B (f s x)) \<and> (A s \<longrightarrow> A (f s x))" using Cons.prems(2)[of x s] by simp
    then show ?thesis using False IH[of "f s x"] by auto
  qed
qed

lemma length_vignetteStep [simp]: "length (vignetteStep a w h y d x) = length d"
  by (simp add: vignetteStep_def Let_def)

lemma vignetteStep_other:
  assumes "k < (y * w + x) * 4 \<or> (y * w + x) * 4 + 2 < k"
  shows "vignetteStep a w h y d x ! k = d ! k"
  using assms by (auto simp: vignetteStep_def Let_def)

lemma vignetteStep_hit:
  assumes "(y * w + x) * 4 + 2 < length d" "c < 3"
  shows "vignetteStep a w h y d x ! ((y * w + x) * 4 + c) =
         vignetteByte a w h x y (d ! ((y * w + x) * 4 + c))"
proof -
  consider "c = 0" | "c = 1" | "c = 2" using assms(2) by linarith
  then show ?thesis
    using assms(1)
    by cases (simp_all add: vignetteStep_def vignetteByte_def Let_def nth_put rd_def)
qed

lemma pixel_index_inj:
  fixes w :: nat
  assumes "x < w" "x0 < w" "y * w + x = y0 * w + x0"
  shows "y = y0 \<and> x = x0"
proof -
  have "(y * w + x) div w = y" "(y0 * w + x0) div w = y0" using assms(1,2) by simp_all
  then have "y = y0" using assms(3) by simp
  then show ?thesis using assms(3) by simp
qed

lemma vignetteStep_elsewhere:
  assumes "x < w" "x0 < w" "(y, x) \<noteq> (y0, x0)" "c < 3"
  shows "vignetteStep a w h y d x ! ((y0 * w + x0) * 4 + c) = d ! ((y0 * w + x0) * 4 + c)"
proof -
  have sep: "p0 * 4 + c < p * 4 \<or> p * 4 + 2 < p0 * 4 + c" if "p \<noteq> p0" for p p0 :: nat
    using that assms(4) by arith
  have "y * w + x \<noteq> y0 * w + x0" using pixel_index_inj[OF assms(1,2)] assms(3) by auto
  then have "(y0 * w + x0) * 4 + c < (y * w + x) * 4 \<or> (y * w + x) * 4 + 2 < (y0 * w + x0) * 4 + c"
    by (rule sep)
  then show ?thesis by (rule vignetteStep_other)
qed

lemma applyVignetteEffect_pixel:
  assumes len: "length (data img) = width img * height img * 4"
    and x0: "x0 < width img" and y0: "y0 < height img" and c: "c < 3"
  shows "data (applyVignetteEffect img a) ! ((y0 * width img + x0) * 4 + c) =
         vignetteByte a (width img) (height img) x0 y0 (data img ! ((y0 * width img + x0) * 4 + c))"
proof -
  define w h d0 where "w = width img" and "h = height img" and "d0 = data img"
  define j0 where "j0 = (y0 * w + x0) * 4"
  define B where "B d \<longleftrightarrow> length d = length d0 \<and> (\<forall>c<3. d ! (j0 + c) = d0 ! (j0 + c))" for d
  define A where "A d \<longleftrightarrow> length d = length d0 \<and>
      (\<forall>c<3. d ! (j0 + c) = vignetteByte a w h x0 y0 (d0 ! (j0 + c)))" for d
  have "y0 * w + x0 < w * h"
  proof -
    have "y0 * w + x0 < y0 * w + w" using x0 by (simp add: w_def)
    also have "\<dots> = (Suc y0) * w" by simp
    also have "\<dots> \<le> h * w" using y0 by (intro mult_le_mono1) (simp add: h_def)
    finally show ?thesis by (simp add: mult.commute)
  qed
  then have inside: "j0 + 2 < length d0" using len by (simp add: j0_def d0_def w_def h_def)
  have elsewhere: "(B d \<longrightarrow> B (vignetteStep a w h y d x)) \<and> (A d \<longrightarrow> A (vignetteStep a w h y d x))"
    if "x < w" "(y, x) \<noteq> (y0, x0)" for d x y
  proof -
    have x0': "x0 < w" using x0 by (simp add: w_def)
    have "vignetteStep a w h y d x ! (j0 + c) = d ! (j0 + c)" if "c < 3" for c
      unfolding j0_def using \<open>x < w\<close> x0' \<open>(y, x) \<noteq> (y0, x0)\<close> that
      by (rule vignetteStep_elsewhere)
    then show ?thesis by (simp add: B_def A_def)
  qed
  have hit: "A (vignetteStep a w h y0 d x0)" if "B d" for d
  proof -
    have l: "(y0 * w + x0) * 4 + 2 < length d" using that inside by (simp add: B_def j0_def)
    show ?thesis
      using that vignetteStep_hit[OF l, of _ a h] by (simp add: A_def B_def j0_def)
  qed
  have row_other: "(B d \<longrightarrow> B (foldl (vignetteStep a w h y) d [0..<w]))
      \<and> (A d \<longrightarrow> A (foldl (vignetteStep a w h y) d [0..<w]))" if "y \<noteq> y0" for d y
  proof (intro conjI impI)
    assume "B d"
    then show "B (foldl (vignetteStep a w h y) d [0..<w])"
      by (rule foldl_invariant) (use elsewhere that in auto)
  next
    assume "A d"
    then show "A (foldl (vignetteStep a w h y) d [0..<w])"
      by (rule foldl_invariant) (use elsewhere that in auto)
  qed
  have row_hit: "A (foldl (vignetteStep a w h y0) d [0..<w])" if "B d" for d
  proof -
    have "(B d \<longrightarrow> (if x0 \<in> set [0..<w] then A (foldl (vignetteStep a w h y0) d [0..<w])
                    else B (foldl (vignetteStep a w h y0) d [0..<w])))
        \<and> (A d \<longrightarrow> x0 \<notin> set [0..<w] \<longrightarrow> A (foldl (vignetteStep a w h y0) d [0..<w]))"
      by (rule foldl_phase) (use elsewhere hit in auto)
    then show ?thesis using that x0 by (simp add: w_def)
  qed
  have B0: "B d0" by (simp add: B_def)
  have "(B d0 \<longrightarrow> (if y0 \<in> set [0..<h]
            then A (foldl (\<lambda>d y. foldl (vignetteStep a w h y) d [0..<w]) d0 [0..<h])
            else B (foldl (\<lambda>d y. foldl (vignetteStep a w h y) d [0..<w]) d0 [0..<h])))
      \<and> (A d0 \<longrightarrow> y0 \<notin> set [0..<h] \<longrightarrow>
            A (foldl (\<lambda>d y. foldl (vignetteStep a w h y) d [0..<w]) d0 [0..<h]))"
    by (rule foldl_phase) (use row_other row_hit in auto)
  then have "A (foldl (\<lambda>d y. foldl (vignetteStep a w h y) d [0..<w]) d0 [0..<h])"
    using B0 y0 by (simp add: h_def)
  then show ?thesis
    using c by (simp add: A_def applyVignetteEffect_def j0_def w_def h_def d0_def)
qed

lemma vignetteDistance_top: "vignetteDistance 8 2 4 0 = Fin 1"
  by (simp add: vignetteDistance_def Let_def)

lemma vignetteByte_top: "vignetteByte 1 8 2 4 0 200 = 0"
  by (simp add: vignetteByte_def vignetteDistance_top Let_def)

lemma applyEffects_fullVignette:
  "applyEffects rand wideImage fullVignette = applyVignetteEffect wideImage 1"
  by (simp add: applyEffects_def fullVignette_def defaultAdjustments_def Let_def)

text \<open>
  C9. In an image of eight by two pixels the pixel \<open>(4, 0)\<close> is at distance 1 from the
  centre \<open>(4, 1)\<close>, less than a quarter (and so less than half) of the distance
  \<open>sqrt 17\<close> from the centre to a corner; the vignette of amount 100 turns it from grey
  to black. The code measures the distance on each axis in units of the half extent,
  so this pixel is at distance 1 and every pixel of the top row is fully darkened.
\<close>

theorem vignette_darkens_inside_half_radius:
  "centreDistance 8 2 4 0 \<le> maxDist 8 2 / 4
   \<and> centreDistance 8 2 4 0 \<le> maxDist 8 2 / 2
   \<and> data wideImage ! 16 = 200 \<and> data wideImage ! 17 = 200 \<and> data wideImage ! 18 = 200
   \<and> data (applyEffects halfRandom wideImage fullVignette) ! 16 = 0
   \<and> data (applyEffects halfRandom wideImage fullVignette) ! 17 = 0
   \<and> data (applyEffects halfRandom wideImage fullVignette) ! 18 = 0"
proof -
  have s: "(4::real) \<le> sqrt 17" by (rule real_le_rsqrt) simp
  then have r: "centreDistance 8 2 4 0 \<le> maxDist 8 2 / 4"
    by (simp add: centreDistance_def maxDist_def)
  have r2: "centreDistance 8 2 4 0 \<le> maxDist 8 2 / 2"
    using s by (simp add: centreDistance_def maxDist_def)
  have l: "length (data wideImage) = width wideImage * height wideImage * 4"
    by (simp add: wideImage_def)
  have p: "data (applyVignetteEffect wideImage 1) ! ((0 * width wideImage + 4) * 4 + c) =
      vignetteByte 1 (width wideImage) (height wideImage) 4 0
        (data wideImage ! ((0 * width wideImage + 4) * 4 + c))" if "c < 3" for c
    using l _ _ that by (rule applyVignetteEffect_pixel) (simp_all add: wideImage_def)
  have w: "width wideImage = 8" "height wideImage = 2"
    "data wideImage ! 16 = 200" "data wideImage ! 17 = 200" "data wideImage ! 18 = 200"
    by (simp_all add: wideImage_def)
  have "data (applyVignetteEffect wideImage 1) ! 16 = 0"
    using p[of 0] by (simp add: w vignetteByte_top)
  moreover have "data (applyVignetteEffect wideImage 1) ! 17 = 0"
    using p[of 1] by (simp add: w vignetteByte_top)
  moreover have "data (applyVignetteEffect wideImage 1) ! 18 = 0"
    using p[of 2] by (simp add: w vignetteByte_top)
  ultimately show ?thesis using r r2 w by (simp add: applyEffects_fullVignette)
qed

theorem vignette_darkens_inside_half_radius_witness:
  "data (applyEffects halfRandom wideImage fullVignette) ! 16 \<noteq> data wideImage ! 16"
  using vignette_darkens_inside_half_radius by simp

text \<open>What does hold: a pixel whose distance as the code measures it is at most one half
  keeps its bytes.\<close>

lemma vignette_keeps_inner_pixels:
  assumes "length (data img) = width img * height img * 4"
    and "x < width img" and "y < height img" and "c < 3"
    and "\<not> Fin 0.5 < vignetteDistance (width img) (height img) x y"
  shows "data (applyVignetteEffect img a) ! ((y * width img + x) * 4 + c) =
         data img ! ((y * width img + x) * 4 + c)"
  using applyVignetteEffect_pixel[OF assms(1-4), of a] assms(5)
  by (simp add: vignetteByte_def Let_def)

section \<open>Properties of the image processor\<close>

lemma processImage_uninitialized:
  "uninitialized st \<Longrightarrow> processImage env st = (Inr None, st)"
  by (auto simp: processImage_def uninitialized_def)

lemma uninitialized_new: "uninitialized newImageProcessor"
  by (simp add: uninitialized_def newImageProcessor_def)

lemma uninitialized_destroy: "uninitialized (destroy st)"
  by (simp add: uninitialized_def destroy_def cleanup_def)

lemma uninitialized_failed_initialize:
  "fst (initialize env url q st) = Inl e \<Longrightarrow> uninitialized (snd (initialize env url q st))"
  by (auto simp: initialize_def uninitialized_def cleanup_def Let_def
      split: option.splits prod.splits if_splits)

text \<open>
  C6 (as the code has it). While the processor is uninitialized (as created, after
  \<open>destroy\<close>, or after an \<open>initialize\<close> that threw), \<open>updateAdjustments\<close> and
  \<open>generateFinalImage\<close> return \<open>null\<close>; they do not throw.
\<close>

theorem uninitialized_calls_return_null:
  "(uninitialized st \<longrightarrow>
      fst (updateAdjustments env newAdjustments st) = Inr None
    \<and> fst (generateFinalImage env st) = Inr None)
   \<and> uninitialized (newImageProcessor :: 'a imageProcessor)
   \<and> uninitialized (destroy st)
   \<and> (fst (initialize env url q st) \<noteq> Inr () \<longrightarrow> uninitialized (snd (initialize env url q st)))"
proof -
  have a: "fst (updateAdjustments env newAdjustments st) = Inr None" if u: "uninitialized st"
  proof -
    have "uninitialized (st\<lparr>adjustments := newAdjustments (adjustments st)\<rparr>)"
      using u by (simp add: uninitialized_def)
    then show ?thesis by (simp add: updateAdjustments_def processImage_uninitialized)
  qed
  have b: "fst (generateFinalImage env st) = Inr None" if u: "uninitialized st"
  proof (cases "sourceImage st")
    case None
    then show ?thesis by (simp add: generateFinalImage_def)
  next
    case (Some src)
    let ?st1 = "st\<lparr>qualityFactor := 1,
        canvas := map_option (\<lambda>_. blankCanvas (originalWidth st) (originalHeight st)) (canvas st),
        editCanvas := map_option (\<lambda>_. blankCanvas (originalWidth st) (originalHeight st)) (editCanvas st)\<rparr>"
    have "uninitialized ?st1" using u Some by (auto simp: uninitialized_def)
    then have "processImage env ?st1 = (Inr None, ?st1)" by (rule processImage_uninitialized)
    then show ?thesis using Some by (simp add: generateFinalImage_def Let_def)
  qed
  have c: "fst (initialize env url q st) \<noteq> Inr () \<longrightarrow> uninitialized (snd (initialize env url q st))"
  proof
    assume "fst (initialize env url q st) \<noteq> Inr ()"
    then obtain e where "fst (initialize env url q st) = Inl e"
      by (cases "fst (initialize env url q st)") auto
    then show "uninitialized (snd (initialize env url q st))" by (rule uninitialized_failed_initialize)
  qed
  show ?thesis using a b c uninitialized_new uninitialized_destroy by blast
qed

theorem uninitialized_calls_return_null_witness:
  "uninitialized (newImageProcessor :: unit imageProcessor)
   \<and> fst (updateAdjustments emptyBrowser id newImageProcessor) = Inr None
   \<and> fst (generateFinalImage emptyBrowser newImageProcessor) = Inr None
   \<and> fst (initialize emptyBrowser ''x'' ''low'' newImageProcessor) \<noteq> Inr ()
   \<and> uninitialized (snd (initialize emptyBrowser ''x'' ''low'' newImageProcessor))"
proof -
  have f: "fst (initialize emptyBrowser ''x'' ''low'' newImageProcessor) \<noteq> Inr ()"
    by (simp add: initialize_def emptyBrowser_def noImage_def Let_def)
  show ?thesis
    using f uninitialized_calls_return_null
      [of "newImageProcessor :: unit imageProcessor" emptyBrowser id "''x''" "''low''"]
    by blast
qed

text \<open>
  C6 as stated fails: on a new processor, and on a destroyed one, the calls return
  \<open>null\<close> and not an \<open>InvalidState\<close> error.
\<close>

theorem uninitialized_call_no_error:
  "fst (updateAdjustments emptyBrowser id newImageProcessor) = Inr None
   \<and> fst (updateAdjustments emptyBrowser id newImageProcessor) \<noteq> Inl ''InvalidState''
   \<and> fst (generateFinalImage emptyBrowser (destroy newImageProcessor)) = Inr None
   \<and> fst (generateFinalImage emptyBrowser (destroy newImageProcessor)) \<noteq> Inl ''InvalidState''"
  by (simp add: updateAdjustments_def generateFinalImage_def processImage_def destroy_def
      cleanup_def newImageProcessor_def)

section \<open>Properties of the requests to the worker\<close>

lemma dispatchMessage_length [simp]: "length (dispatchMessage e port) = length port"
  by (simp add: dispatchMessage_def)




section \<open>Properties of the history\<close>

lemma slice_prefix:
  "0 \<le> k \<Longrightarrow> slice xs 0 k = take (nat k) xs"
  by (simp add: slice_def relIndex_def min_def)

lemma applyChangesHistory_length:
  "length (entries (applyChangesHistory x h)) \<le> 10"
  by (auto simp add: applyChangesHistory_def sliceFrom_def relIndex_def Let_def)

lemma applyChangesHistory_last:
  "last (entries (applyChangesHistory x h)) = x"
  by (simp add: applyChangesHistory_def sliceFrom_def relIndex_def Let_def)

text \<open>
  C4. From an empty history, \<open>commit A; commit B; undo; commit C\<close> leaves exactly
  \<open>[A, C]\<close> with the cursor on \<open>C\<close>, in both components; and in general a commit made
  while the cursor is before the last entry keeps the entries up to the cursor, drops
  the ones after it, appends the new entry and puts the cursor on it.
\<close>

theorem commit_after_undo_truncates:
  assumes "- 1 \<le> index h" and "index h < int (length (entries h)) - 1"
  shows "saveToHistory (Some x) h =
           \<lparr>entries = take (nat (index h + 1)) (entries h) @ [x], index = index h + 1\<rparr>
       \<and> (length (entries h) \<le> 10 \<longrightarrow>
            applyChangesHistory x h =
              \<lparr>entries = take (nat (index h + 1)) (entries h) @ [x], index = index h + 1\<rparr>)
       \<and> saveToHistory (Some C) (handleUndo (saveToHistory (Some B)
            (saveToHistory (Some A) emptyHistory))) = \<lparr>entries = [A, C], index = 1\<rparr>
       \<and> applyChangesHistory C (toolsUndo (applyChangesHistory B
            (applyChangesHistory A emptyHistory))) = \<lparr>entries = [A, C], index = 1\<rparr>"
proof -
  have k: "0 \<le> index h + 1" using assms(1) by simp
  have len: "nat (index h + 1) < length (entries h)" using assms by linarith
  have one: "saveToHistory (Some x) h =
           \<lparr>entries = take (nat (index h + 1)) (entries h) @ [x], index = index h + 1\<rparr>"
    using assms len by (simp add: saveToHistory_def Let_def slice_prefix[OF k])
  have two: "length (entries h) \<le> 10 \<longrightarrow>
            applyChangesHistory x h =
              \<lparr>entries = take (nat (index h + 1)) (entries h) @ [x], index = index h + 1\<rparr>"
    using len by (simp add: applyChangesHistory_def Let_def slice_prefix[OF k])
  have three: "saveToHistory (Some C) (handleUndo (saveToHistory (Some B)
            (saveToHistory (Some A) emptyHistory))) = \<lparr>entries = [A, C], index = 1\<rparr>"
    by (simp add: saveToHistory_def handleUndo_def emptyHistory_def Let_def slice_def relIndex_def)
  have four: "applyChangesHistory C (toolsUndo (applyChangesHistory B
            (applyChangesHistory A emptyHistory))) = \<lparr>entries = [A, C], index = 1\<rparr>"
    by (simp add: applyChangesHistory_def toolsUndo_def emptyHistory_def Let_def slice_def
        relIndex_def)
  from one two three four show ?thesis by blast
qed

theorem commit_after_undo_truncates_witness:
  "saveToHistory (Some ''C'') \<lparr>entries = [''A'', ''B''], index = 0\<rparr> =
     \<lparr>entries = [''A'', ''C''], index = 1\<rparr>
   \<and> applyChangesHistory ''C'' \<lparr>entries = [''A'', ''B''], index = 0\<rparr> =
     \<lparr>entries = [''A'', ''C''], index = 1\<rparr>"
  using commit_after_undo_truncates [of "\<lparr>entries = [''A'', ''B''], index = 0\<rparr>" "''C''"]
  by simp

lemma saveToHistory_at_tail:
  "index h = int (length (entries h)) - 1 \<Longrightarrow>
   saveToHistory (Some x) h = \<lparr>entries = entries h @ [x], index = index h + 1\<rparr>"
  by (simp add: saveToHistory_def Let_def)

lemma sliceFrom_last_ten:
  "sliceFrom xs (- 10) = drop (length xs - 10) xs"
proof -
  have "relIndex (length xs) (- 10) = length xs - 10"
    by (simp add: relIndex_def)
  then show ?thesis by (simp add: sliceFrom_def)
qed

lemma applyChangesHistory_keeps_latest:
  "entries (applyChangesHistory x h) =
     (let newHistory = slice (entries h) 0 (index h + 1) @ [x]
      in drop (length newHistory - 10) newHistory)"
  by (simp add: applyChangesHistory_def sliceFrom_last_ten Let_def del: length_append)

text \<open>
  C5. \<open>saveToHistory\<close> of \<open>ProImageEditor\<close> has no capacity check: eleven commits
  from the empty history leave eleven entries, the first one still at the head. (The
  history of \<open>ImageEditorTools\<close> is cut to its last ten entries on every commit, see
  \<open>applyChangesHistory_length\<close>.)
\<close>

theorem saveToHistory_exceeds_capacity:
  "foldl (\<lambda>h u. saveToHistory (Some u) h) emptyHistory
     [''e1'', ''e2'', ''e3'', ''e4'', ''e5'', ''e6'', ''e7'', ''e8'', ''e9'', ''e10'', ''e11'']
   = \<lparr>entries =
        [''e1'', ''e2'', ''e3'', ''e4'', ''e5'', ''e6'', ''e7'', ''e8'', ''e9'', ''e10'', ''e11''],
      index = 10\<rparr>
   \<and> length (entries (foldl (\<lambda>h u. saveToHistory (Some u) h) emptyHistory
     [''e1'', ''e2'', ''e3'', ''e4'', ''e5'', ''e6'', ''e7'', ''e8'', ''e9'', ''e10'', ''e11''])) = 11"
  by (simp add: saveToHistory_def emptyHistory_def Let_def)

theorem saveToHistory_exceeds_capacity_witness:
  "\<not> length (entries (foldl (\<lambda>h u. saveToHistory (Some u) h) emptyHistory
     [''e1'', ''e2'', ''e3'', ''e4'', ''e5'', ''e6'', ''e7'', ''e8'', ''e9'', ''e10'', ''e11''])) \<le> 10"
  using saveToHistory_exceeds_capacity by simp

end
